theory Spec2Isabelle
  imports Main "HOL-Library.Sublist"
begin

section \<open>The TOR session manager (class \<open>TorNetworkClient\<close>)\<close>

text \<open>
  The manager is an object with private fields; every method is modelled as a function that
  takes the object and the world and returns its outcome together with the updated object
  and world. Calls that leave the process (fetch, the control socket, the file system, the
  spawned daemon, the clock) are answered by an environment of oracles, and every such call
  is appended to the world's trace, so "no network call was made" is "the trace did not
  grow". Diagnostic \<open>console.error\<close> lines are not part of the model.

  What is taken from the libraries rather than from the repository: a \<open>fetch\<close> promise
  settles (it resolves with a response or rejects); constructing a \<open>SocksProxyAgent\<close> and
  \<open>spawn\<close> do not throw; a timer that was set fires; a socket's idle timer fires only while
  the socket is open. Strings are byte lists.

  The repository is built as an ES module (its entry point reads \<open>import.meta.url\<close>, and
  every import names a \<open>.js\<close> file). In an ES module the identifier \<open>require\<close> is not
  bound. The build files are not part of the sources, so the environment says whether
  \<open>require\<close> is bound (\<open>require_defined\<close>); the sample environments are ES modules.
\<close>

subsection \<open>JavaScript values\<close>

text \<open>
  A property of an object literal passed by the caller is absent, present with the value
  \<open>undefined\<close>, or present with a value. A property of an object the manager holds is
  \<open>undefined\<close> (\<open>None\<close>) or a value. Numbers are ports, seconds and milliseconds: integers;
  of a number in a response body the code only tests whether it is zero.
\<close>

datatype 'a field = Absent | Undefined | Value 'a

text \<open>\<open>x ?? d\<close> on a property read: the default is taken when the read yields \<open>undefined\<close>.\<close>

fun nullish :: "'a field \<Rightarrow> 'a option \<Rightarrow> 'a option" where
  "nullish (Value v) d = Some v"
| "nullish Undefined d = d"
| "nullish Absent d = d"

text \<open>
  \<open>{ k: x, ...config }\<close>: an own property of \<open>config\<close> overwrites \<open>k\<close>, also when its value
  is \<open>undefined\<close>; an absent one leaves \<open>x\<close>.
\<close>

fun spread :: "'a field \<Rightarrow> 'a option \<Rightarrow> 'a option" where
  "spread Absent x = x"
| "spread Undefined x = None"
| "spread (Value v) x = Some v"

text \<open>A destructuring default \<open>{ k = d } = options\<close>.\<close>

fun destructure :: "'a option \<Rightarrow> 'a \<Rightarrow> 'a" where
  "destructure None d = d"
| "destructure (Some v) d = v"

text \<open>
  A value parsed from a response body, or \<open>undefined\<close>. An object is the list of its own
  properties. Objects and arrays are kept as values.
\<close>

datatype js_value =
    JSUndefined
  | JSNull
  | JSBool bool
  | JSNumber int
  | JSString string
  | JSArray "js_value list"
  | JSObject "(string \<times> js_value) list"

text \<open>What \<open>if (v)\<close> and \<open>!v\<close> test.\<close>

fun truthy :: "js_value \<Rightarrow> bool" where
  "truthy JSUndefined = False"
| "truthy JSNull = False"
| "truthy (JSBool b) = b"
| "truthy (JSNumber n) = (n \<noteq> 0)"
| "truthy (JSString s) = (s \<noteq> [])"
| "truthy (JSArray vs) = True"
| "truthy (JSObject ps) = True"

text \<open>
  \<open>data.name\<close> for a name that no prototype defines (the code reads \<open>IsTor\<close> and \<open>IP\<close>): a
  TypeError (\<open>None\<close>) on \<open>null\<close> and \<open>undefined\<close>, the own property of an object, and
  \<open>undefined\<close> otherwise.
\<close>

fun get_property :: "js_value \<Rightarrow> string \<Rightarrow> js_value option" where
  "get_property JSUndefined name = None"
| "get_property JSNull name = None"
| "get_property (JSObject ps) name =
     (case map_of ps name of Some v \<Rightarrow> Some v | None \<Rightarrow> Some JSUndefined)"
| "get_property (JSBool b) name = Some JSUndefined"
| "get_property (JSNumber n) name = Some JSUndefined"
| "get_property (JSString s) name = Some JSUndefined"
| "get_property (JSArray vs) name = Some JSUndefined"

text \<open>What an \<open>await\<close> observes: a value, a rejection, or a promise that never settles.\<close>

datatype error =
    NotInitialized
  | NotConnected
  | InitializationFailed error
  | FetchFailed string
  | JsonFailed
  | PropertyOfNull
  | RequireNotDefined
  | FsFailed string
  | PathTypeError
  | SpawnFailed string
  | TorExited "int option"
  | StartupTimeout
  | ConnectionTimeout
  | SocketFailed string
  | ControlTimeout

datatype 'a outcome = Returns 'a | Throws error | Pending

subsection \<open>Strings\<close>

primrec str_includes :: "string \<Rightarrow> string \<Rightarrow> bool" where
  "str_includes [] needle = (needle = [])"
| "str_includes (c # cs) needle = (prefix needle (c # cs) \<or> str_includes cs needle)"

text \<open>\<open>String.prototype.trim\<close>, for the white space of the ASCII range.\<close>

definition whitespace :: "char \<Rightarrow> bool" where
  "whitespace c = (c \<in> set [CHR '' '', CHR 0x09, CHR 0x0A, CHR 0x0B, CHR 0x0C, CHR 0x0D])"

definition trim :: "string \<Rightarrow> string" where
  "trim s = rev (dropWhile whitespace (rev (dropWhile whitespace s)))"

text \<open>\<open>s.split(sep)\<close> for a one-character separator.\<close>

fun split :: "char \<Rightarrow> string \<Rightarrow> string list" where
  "split sep [] = [[]]"
| "split sep (c # cs) =
     (if c = sep then [] # split sep cs
      else (case split sep cs of [] \<Rightarrow> [[c]] | p # ps \<Rightarrow> (c # p) # ps))"

text \<open>\<open>xs[i]\<close>: \<open>undefined\<close> out of range.\<close>

definition at_index :: "'a list \<Rightarrow> nat \<Rightarrow> 'a option" where
  "at_index xs i = (if i < length xs then Some (xs ! i) else None)"

text \<open>A number or a string inside a template literal.\<close>

fun digits :: "nat \<Rightarrow> string" where
  "digits n = (if n < 10 then [''0123456789'' ! n] else digits (n div 10) @ [''0123456789'' ! (n mod 10)])"

declare digits.simps [simp del]

definition show_number :: "int \<Rightarrow> string" where
  "show_number i = (if i < 0 then CHR ''-'' # digits (nat (- i)) else digits (nat i))"

fun template :: "('a \<Rightarrow> string) \<Rightarrow> 'a option \<Rightarrow> string" where
  "template f None = ''undefined''"
| "template f (Some v) = f v"

subsection \<open>Data\<close>

text \<open>
  \<open>interface TorConfig\<close>. The caller passes a \<open>Partial<TorConfig>\<close> (every field a
  \<^typ>\<open>'a field\<close>); the object the manager keeps has every field a value or \<open>undefined\<close>.
\<close>

record ('n, 's) TorConfig =
  socksPort :: 'n
  controlPort :: 'n
  torrcPath :: 's
  dataDirectory :: 's
  circuitBuildTimeout :: 'n
  newCircuitPeriod :: 'n

type_synonym PartialTorConfig = "(int field, string field) TorConfig"
type_synonym ResolvedTorConfig = "(int option, string option) TorConfig"

text \<open>
  \<open>interface TorConnectionStatus\<close>. \<open>lastCircuitTime\<close> is a \<open>Date\<close>: a reference to a
  mutable object in the world's store of dates. \<open>isConnected\<close>, \<open>circuitEstablished\<close> and
  \<open>currentIP\<close> are declared \<open>boolean\<close> and \<open>string\<close>, but are assigned what the response
  body holds, whatever it is.
\<close>

type_synonym date_ref = nat

record TorConnectionStatus =
  isConnected :: js_value
  circuitEstablished :: js_value
  currentIP :: js_value
  torVersion :: "string option"
  circuitCount :: "int option"
  lastCircuitTime :: "date_ref option"

datatype SocksProxyAgent = SocksProxyAgent string

datatype ChildProcess = ChildProcess nat

text \<open>
  node-fetch's \<open>RequestInit\<close> (the fields this repository sets, overrides or passes on),
  \<open>RequestInit & { timeout?: number }\<close> as handed to \<open>fetch\<close>, and
  \<open>interface TorRequestOptions extends RequestInit\<close>.
\<close>

record RequestInit =
  "method" :: "string option"
  headers :: "(string \<times> string) list option"
  body :: "string option"
  redirect :: "string option"
  follow :: "int option"
  init_agent :: "SocksProxyAgent option"

record FetchInit = RequestInit +
  init_timeout :: "int option"

record TorRequestOptions = RequestInit +
  timeout :: "int option"
  followRedirects :: "bool option"
  maxRedirects :: "int option"

text \<open>
  A \<open>Response\<close>: its status, its \<open>ok\<close> flag, and what \<open>response.json()\<close> yields: the parsed
  body, or \<open>None\<close> when \<open>json()\<close> rejects. The cast \<open>as { IsTor: boolean; IP: string }\<close>
  checks nothing at run time.
\<close>

record Response =
  status :: int
  ok :: bool
  json :: "js_value option"

datatype fetch_outcome = FetchResolves Response | FetchRejects string

text \<open>Events of the control socket and of the spawned daemon, in the order they are dispatched.\<close>

datatype sock_event = SockConnect | SockData string | SockError string | SockClose

datatype proc_event =
    ProcOutput string
  | ProcError string
  | ProcExit "int option"
  | CheckReadyTimer

datatype effect =
    Fetch string FetchInit
  | SockOpen "int option"
  | SockWrite string
  | SockEnd
  | SockDestroy
  | Mkdir "string option"
  | WriteFile string string
  | Spawn string "string list"
  | Kill ChildProcess string
  | Sleep nat

record world =
  trace :: "effect list"
  dates :: "int list"

text \<open>
  The environment: what the outside answers, given everything the process has done so far.
  \<open>tmpdir\<close> and \<open>path_join\<close> stand for \<open>os.tmpdir()\<close> and \<open>path.join\<close> (which throws a
  TypeError, \<open>None\<close>, on a non-string).
\<close>

record env =
  require_defined :: bool
  fetch_reply :: "effect list \<Rightarrow> string \<Rightarrow> FetchInit \<Rightarrow> fetch_outcome"
  socket_events :: "effect list \<Rightarrow> int option \<Rightarrow> string \<Rightarrow> sock_event list"
  mkdir_reply :: "effect list \<Rightarrow> string option \<Rightarrow> string option"
  writeFile_reply :: "effect list \<Rightarrow> string \<Rightarrow> string \<Rightarrow> string option"
  daemon_events :: "effect list \<Rightarrow> proc_event list"
  clock :: "effect list \<Rightarrow> int"
  tmpdir :: string
  path_join :: "string option \<Rightarrow> string \<Rightarrow> string option"

record TorNetworkClient =
  config :: ResolvedTorConfig
  agent :: "SocksProxyAgent option"
  torProcess :: "ChildProcess option"
  isInitialized :: bool
  connectionStatus :: TorConnectionStatus

subsection \<open>Calls that leave the process\<close>

definition emit :: "effect \<Rightarrow> world \<Rightarrow> world" where
  "emit e w = w\<lparr>trace := trace w @ [e]\<rparr>"

definition fetch :: "env \<Rightarrow> world \<Rightarrow> string \<Rightarrow> FetchInit \<Rightarrow> fetch_outcome \<times> world" where
  "fetch E w url init = (fetch_reply E (trace w) url init, emit (Fetch url init) w)"

text \<open>\<open>await new Promise(resolve => setTimeout(resolve, ms))\<close>.\<close>

definition sleep :: "nat \<Rightarrow> world \<Rightarrow> world" where
  "sleep ms w = emit (Sleep ms) w"

text \<open>\<open>new Date()\<close>: a fresh object holding the current time.\<close>

definition new_Date :: "env \<Rightarrow> world \<Rightarrow> date_ref \<times> world" where
  "new_Date E w = (length (dates w), w\<lparr>dates := dates w @ [clock E (trace w)]\<rparr>)"



subsection \<open>Construction\<close>

definition proxy_url :: "ResolvedTorConfig \<Rightarrow> string" where
  "proxy_url c = ''socks5h://127.0.0.1:'' @ template show_number (socksPort c)"

text \<open>The field initialiser \<open>{ isConnected: false, circuitEstablished: false }\<close>.\<close>

definition initial_status :: TorConnectionStatus where
  "initial_status =
     \<lparr> isConnected = JSBool False, circuitEstablished = JSBool False, currentIP = JSUndefined,
       torVersion = None, circuitCount = None, lastCircuitTime = None \<rparr>"

definition constructor :: "env \<Rightarrow> PartialTorConfig \<Rightarrow> TorNetworkClient" where
  "constructor E cfg =
     \<lparr> config =
         \<lparr> socksPort = spread (socksPort cfg) (nullish (socksPort cfg) (Some 9050)),
           controlPort = spread (controlPort cfg) (nullish (controlPort cfg) (Some 9051)),
           torrcPath = spread (torrcPath cfg) (nullish (torrcPath cfg) None),
           dataDirectory = spread (dataDirectory cfg)
             (nullish (dataDirectory cfg) (path_join E (Some (tmpdir E)) ''torollama-tor'')),
           circuitBuildTimeout = spread (circuitBuildTimeout cfg)
             (nullish (circuitBuildTimeout cfg) (Some 60)),
           newCircuitPeriod = spread (newCircuitPeriod cfg)
             (nullish (newCircuitPeriod cfg) (Some 30)) \<rparr>,
       agent = None,
       torProcess = None,
       isInitialized = False,
       connectionStatus = initial_status \<rparr>"

text \<open>\<open>new TorNetworkClient()\<close>: the parameter's default is the empty object.\<close>

definition empty_config :: PartialTorConfig where
  "empty_config =
     \<lparr> socksPort = Absent, controlPort = Absent, torrcPath = Absent,
       dataDirectory = Absent, circuitBuildTimeout = Absent, newCircuitPeriod = Absent \<rparr>"

subsection \<open>\<open>request\<close>\<close>

definition check_url :: string where
  "check_url = ''https://check.torproject.org/api/ip''"

text \<open>
  The local \<open>requestOptions\<close>: the caller's \<open>RequestInit\<close> fields, with \<open>agent\<close>,
  \<open>redirect\<close> and \<open>timeout\<close> set after the spread.
\<close>

definition requestOptions :: "TorNetworkClient \<Rightarrow> TorRequestOptions \<Rightarrow> FetchInit" where
  "requestOptions m options =
     (let timeout = destructure (timeout options) 30000;
          followRedirects = destructure (followRedirects options) True;
          maxRedirects = destructure (maxRedirects options) (5::int)
      in \<lparr> method = method options,
           headers = headers options,
           body = body options,
           redirect = Some (if followRedirects then ''follow'' else ''manual''),
           follow = follow options,
           init_agent = agent m,
           init_timeout = Some timeout \<rparr>)"

definition request ::
  "env \<Rightarrow> TorNetworkClient \<Rightarrow> world \<Rightarrow> string \<Rightarrow> TorRequestOptions
     \<Rightarrow> Response outcome \<times> TorNetworkClient \<times> world" where
  "request E m w url options =
     (if \<not> isInitialized m \<or> agent m = None then (Throws NotInitialized, m, w)
      else (case fetch E w url (requestOptions m options) of
              (FetchResolves response, w') \<Rightarrow> (Returns response, m, w')
            | (FetchRejects cause, w') \<Rightarrow> (Throws (FetchFailed cause), m, w')))"

subsection \<open>\<open>checkConnection\<close>\<close>

text \<open>
  \<open>no_options\<close> is the empty options object, \<open>set_isConnected v\<close> the assignment
  \<open>this.connectionStatus.isConnected = v\<close>. A rejected \<open>request\<close>, a rejecting
  \<open>response.json()\<close> and a property read on \<open>null\<close> all land in the \<open>catch\<close> block. The
  value returned is \<open>data.IsTor\<close> as it is.
\<close>

definition no_options :: TorRequestOptions where
  "no_options =
     \<lparr> method = None, headers = None, body = None, redirect = None, follow = None,
       init_agent = None, timeout = None, followRedirects = None, maxRedirects = None \<rparr>"

definition set_isConnected :: "js_value \<Rightarrow> TorNetworkClient \<Rightarrow> TorNetworkClient" where
  "set_isConnected v m = m\<lparr>connectionStatus := (connectionStatus m)\<lparr>isConnected := v\<rparr>\<rparr>"

definition checkConnection ::
  "env \<Rightarrow> TorNetworkClient \<Rightarrow> world \<Rightarrow> js_value outcome \<times> TorNetworkClient \<times> world" where
  "checkConnection E m w =
     (case request E m w check_url (no_options\<lparr>timeout := Some 10000\<rparr>) of
        (Returns response, m1, w1) \<Rightarrow>
          (if ok response then
             (case json response of
                Some data \<Rightarrow>
                  (case (get_property data ''IP'', get_property data ''IsTor'') of
                     (Some ip, Some isTor) \<Rightarrow>
                       (Returns isTor,
                        m1\<lparr>connectionStatus :=
                             (connectionStatus m1)\<lparr>currentIP := ip, isConnected := isTor\<rparr>\<rparr>,
                        w1)
                   | _ \<Rightarrow> (Returns (JSBool False), set_isConnected (JSBool False) m1, w1))
              | None \<Rightarrow> (Returns (JSBool False), set_isConnected (JSBool False) m1, w1))
           else (Returns (JSBool False), m1, w1))
      | (Throws cause, m1, w1) \<Rightarrow>
          (Returns (JSBool False), set_isConnected (JSBool False) m1, w1)
      | (Pending, m1, w1) \<Rightarrow> (Pending, m1, w1))"

subsection \<open>The control-port command channel\<close>

definition CRLF :: string where
  "CRLF = [CHR 0x0D, CHR 0x0A]"

text \<open>
  The promise built by \<open>sendControlCommand\<close>, run over the socket's events with the response
  accumulated so far. \<open>connect\<close> writes the command; \<open>data\<close> appends and resolves once a
  marker is seen; \<open>error\<close> rejects. When no further event arrives the socket is idle and the
  5 s timer armed by \<open>setTimeout\<close> fires: \<open>timeout\<close> destroys the socket and rejects. No
  handler is registered for the peer closing the connection: from then on nothing settles
  the promise.

  The first statement of the executor is \<open>require('net')\<close>. Where \<open>require\<close> is not bound
  it throws a ReferenceError, the promise rejects, and no socket is opened.
\<close>

fun exchange :: "string \<Rightarrow> string \<Rightarrow> sock_event list \<Rightarrow> string outcome \<times> effect list" where
  "exchange command response [] = (Throws ControlTimeout, [SockDestroy])"
| "exchange command response (SockConnect # evs) =
     (case exchange command response evs of
        (r, fx) \<Rightarrow> (r, SockWrite (command @ CRLF) # fx))"
| "exchange command response (SockData d # evs) =
     (if str_includes (response @ d) ''250 OK'' \<or> str_includes (response @ d) ''250-''
      then (Returns (response @ d), [SockEnd])
      else exchange command (response @ d) evs)"
| "exchange command response (SockError message # evs) = (Throws (SocketFailed message), [])"
| "exchange command response (SockClose # evs) = (Pending, [])"

definition sendControlCommand ::
  "env \<Rightarrow> TorNetworkClient \<Rightarrow> world \<Rightarrow> string \<Rightarrow> string outcome \<times> world" where
  "sendControlCommand E m w command =
     (if \<not> require_defined E then (Throws RequireNotDefined, w)
      else (case exchange command []
                   (socket_events E (trace w) (controlPort (config m)) command) of
              (r, fx) \<Rightarrow> (r, w\<lparr>trace := trace w @ SockOpen (controlPort (config m)) # fx\<rparr>)))"

subsection \<open>\<open>updateConnectionStatus\<close>, \<open>getStatus\<close>, \<open>newCircuit\<close>, \<open>cleanup\<close>\<close>

text \<open>\<open>versionInfo.split('=')[1]?.trim()\<close>.\<close>

definition versionPart :: "string \<Rightarrow> string option" where
  "versionPart versionInfo = map_option trim (at_index (split CHR ''='' versionInfo) 1)"

definition updateConnectionStatus ::
  "env \<Rightarrow> TorNetworkClient \<Rightarrow> world \<Rightarrow> unit outcome \<times> TorNetworkClient \<times> world" where
  "updateConnectionStatus E m w =
     (case checkConnection E m w of
        (Returns isConnected', m1, w1) \<Rightarrow>
          (let m2 = m1\<lparr>connectionStatus :=
                        (connectionStatus m1)\<lparr>isConnected := isConnected',
                                               circuitEstablished := isConnected'\<rparr>\<rparr>
           in if truthy isConnected' then
                (case sendControlCommand E m2 w1 ''GETINFO version'' of
                   (Returns versionInfo, w2) \<Rightarrow>
                     (Returns (),
                      m2\<lparr>connectionStatus :=
                           (connectionStatus m2)\<lparr>torVersion := versionPart versionInfo\<rparr>\<rparr>,
                      w2)
                 | (Throws cause, w2) \<Rightarrow> (Returns (), m2, w2)
                 | (Pending, w2) \<Rightarrow> (Pending, m2, w2))
              else (Returns (), m2, w1))
      | (Throws cause, m1, w1) \<Rightarrow>
          (Returns (),
           m1\<lparr>connectionStatus :=
                (connectionStatus m1)\<lparr>isConnected := JSBool False,
                                       circuitEstablished := JSBool False\<rparr>\<rparr>,
           w1)
      | (Pending, m1, w1) \<Rightarrow> (Pending, m1, w1))"

text \<open>
  \<open>{ ...this.connectionStatus }\<close>: a new object with the same property values. The record is
  a value, so the new object is the record itself; a \<open>Date\<close> property is copied as the
  reference it is.
\<close>

definition getStatus ::
  "env \<Rightarrow> TorNetworkClient \<Rightarrow> world
     \<Rightarrow> TorConnectionStatus outcome \<times> TorNetworkClient \<times> world" where
  "getStatus E m w =
     (case updateConnectionStatus E m w of
        (Returns u, m1, w1) \<Rightarrow> (Returns (connectionStatus m1), m1, w1)
      | (Throws cause, m1, w1) \<Rightarrow> (Throws cause, m1, w1)
      | (Pending, m1, w1) \<Rightarrow> (Pending, m1, w1))"

definition newCircuit ::
  "env \<Rightarrow> TorNetworkClient \<Rightarrow> world \<Rightarrow> bool outcome \<times> TorNetworkClient \<times> world" where
  "newCircuit E m w =
     (case sendControlCommand E m w ''SIGNAL NEWNYM'' of
        (Returns reply, w1) \<Rightarrow>
          (case updateConnectionStatus E m (sleep 2000 w1) of
             (Returns u, m2, w2) \<Rightarrow>
               (case new_Date E w2 of
                  (d, w3) \<Rightarrow>
                    (Returns True,
                     m2\<lparr>connectionStatus :=
                          (connectionStatus m2)\<lparr>lastCircuitTime := Some d\<rparr>\<rparr>,
                     w3))
           | (Throws cause, m2, w2) \<Rightarrow> (Returns False, m2, w2)
           | (Pending, m2, w2) \<Rightarrow> (Pending, m2, w2))
      | (Throws cause, w1) \<Rightarrow> (Returns False, m, w1)
      | (Pending, w1) \<Rightarrow> (Pending, m, w1))"

definition cleanup ::
  "TorNetworkClient \<Rightarrow> world \<Rightarrow> unit outcome \<times> TorNetworkClient \<times> world" where
  "cleanup m w =
     (case (case torProcess m of
              Some child \<Rightarrow> (m\<lparr>torProcess := None\<rparr>, emit (Kill child ''SIGTERM'') w)
            | None \<Rightarrow> (m, w)) of
        (m1, w1) \<Rightarrow> (Returns (), m1\<lparr>agent := None, isInitialized := False\<rparr>, w1))"

subsection \<open>Daemon discovery and start-up\<close>

text \<open>
  Never rejects: every failure is caught and reported as \<open>false\<close>; otherwise the value is
  \<open>data.IsTor\<close> as it is, and the callers test it with \<open>if\<close>.
\<close>

definition checkExistingTorConnection ::
  "env \<Rightarrow> TorNetworkClient \<Rightarrow> world \<Rightarrow> js_value \<times> world" where
  "checkExistingTorConnection E m w =
     (case fetch E w check_url
             \<lparr> method = None, headers = None, body = None, redirect = None, follow = None,
               init_agent = Some (SocksProxyAgent (proxy_url (config m))),
               init_timeout = Some 5000 \<rparr> of
        (FetchResolves response, w1) \<Rightarrow>
          (if ok response then
             (case json response of
                Some data \<Rightarrow>
                  (case get_property data ''IsTor'' of
                     Some isTor \<Rightarrow> (isTor, w1)
                   | None \<Rightarrow> (JSBool False, w1))
              | None \<Rightarrow> (JSBool False, w1))
           else (JSBool False, w1))
      | (FetchRejects cause, w1) \<Rightarrow> (JSBool False, w1))"

definition LF :: string where
  "LF = [CHR 0x0A]"

text \<open>The template literal \<open>torrcContent\<close>, before \<open>trim()\<close>.\<close>

definition torrcContent :: "ResolvedTorConfig \<Rightarrow> string" where
  "torrcContent c =
     LF @ ''SocksPort '' @ template show_number (socksPort c) @
     LF @ ''ControlPort '' @ template show_number (controlPort c) @
     LF @ ''DataDirectory '' @ template id (dataDirectory c) @
     LF @ ''CircuitBuildTimeout '' @ template show_number (circuitBuildTimeout c) @
     LF @ ''NewCircuitPeriod '' @ template show_number (newCircuitPeriod c) @
     LF @ ''ExitNodes {us},{ca},{gb},{de},{fr},{nl},{se},{no},{dk}'' @
     LF @ ''StrictNodes 0'' @
     LF @ ''# Enable control port authentication'' @
     LF @ ''HashedControlPassword 16:872860B76453A77D60CA2BB8C1A7042072093276A3D701AD684053EC4C'' @
     LF @ ''CookieAuthentication 1'' @
     LF @ ''    ''"

text \<open>
  The promise of \<open>startTorDaemon\<close>, run over the daemon's events with the output captured so
  far: output is appended, \<open>error\<close> and a non-zero \<open>exit\<close> reject, the one-second
  \<open>checkReady\<close> timer resolves once a readiness marker is in the output. When the events of
  the 60 s window are used up, the 60 s timer rejects.
\<close>

fun await_ready :: "string \<Rightarrow> proc_event list \<Rightarrow> unit outcome" where
  "await_ready torOutput [] = Throws StartupTimeout"
| "await_ready torOutput (ProcOutput output # evs) = await_ready (torOutput @ output) evs"
| "await_ready torOutput (ProcError message # evs) = Throws (SpawnFailed message)"
| "await_ready torOutput (ProcExit code # evs) =
     (if code \<noteq> Some 0 then Throws (TorExited code) else await_ready torOutput evs)"
| "await_ready torOutput (CheckReadyTimer # evs) =
     (if str_includes torOutput ''Bootstrapped 100%''
         \<or> str_includes torOutput ''Opening Socks listener''
      then Returns () else await_ready torOutput evs)"

definition startTorDaemon ::
  "env \<Rightarrow> TorNetworkClient \<Rightarrow> world \<Rightarrow> unit outcome \<times> TorNetworkClient \<times> world" where
  "startTorDaemon E m w =
     (let w1 = emit (Mkdir (dataDirectory (config m))) w in
      case mkdir_reply E (trace w) (dataDirectory (config m)) of
        Some cause \<Rightarrow> (Throws (FsFailed cause), m, w1)
      | None \<Rightarrow>
          (case path_join E (dataDirectory (config m)) ''torrc'' of
             None \<Rightarrow> (Throws PathTypeError, m, w1)
           | Some torrcPath' \<Rightarrow>
               (let content = trim (torrcContent (config m));
                    w2 = emit (WriteFile torrcPath' content) w1 in
                case writeFile_reply E (trace w1) torrcPath' content of
                  Some cause \<Rightarrow> (Throws (FsFailed cause), m, w2)
                | None \<Rightarrow>
                    (let w3 = emit (Spawn ''tor'' [''-f'', torrcPath']) w2;
                         m1 = m\<lparr>torProcess := Some (ChildProcess (length (trace w2)))\<rparr>
                     in (await_ready [] (daemon_events E (trace w3)), m1, w3)))))"

function waitForTorConnection_loop ::
  "env \<Rightarrow> TorNetworkClient \<Rightarrow> nat \<Rightarrow> world \<Rightarrow> unit outcome \<times> world" where
  "waitForTorConnection_loop E m attempts w =
     (if attempts < 30 then
        (case checkExistingTorConnection E m w of
           (found, w1) \<Rightarrow>
             (if truthy found then (Returns (), w1)
              else waitForTorConnection_loop E m (attempts + 1) (sleep 2000 w1)))
      else (Throws ConnectionTimeout, w))"
  by pat_completeness auto
termination
  by (relation "measure (\<lambda>(E, m, attempts, w). 30 - attempts)") auto

declare waitForTorConnection_loop.simps [simp del]

definition waitForTorConnection ::
  "env \<Rightarrow> TorNetworkClient \<Rightarrow> world \<Rightarrow> unit outcome \<times> world" where
  "waitForTorConnection E m w = waitForTorConnection_loop E m 0 w"

subsection \<open>\<open>initialize\<close>\<close>

text \<open>The body of the \<open>try\<close> block.\<close>

definition connect_and_verify ::
  "env \<Rightarrow> TorNetworkClient \<Rightarrow> world \<Rightarrow> unit outcome \<times> TorNetworkClient \<times> world" where
  "connect_and_verify E m w =
     (let m1 = m\<lparr>agent := Some (SocksProxyAgent (proxy_url (config m)))\<rparr> in
      case updateConnectionStatus E m1 w of
        (Returns u, m2, w2) \<Rightarrow>
          (if \<not> truthy (isConnected (connectionStatus m2)) then (Throws NotConnected, m2, w2)
           else (Returns (), m2\<lparr>isInitialized := True\<rparr>, w2))
      | (Throws cause, m2, w2) \<Rightarrow> (Throws cause, m2, w2)
      | (Pending, m2, w2) \<Rightarrow> (Pending, m2, w2))"

definition initialize_try ::
  "env \<Rightarrow> TorNetworkClient \<Rightarrow> world \<Rightarrow> unit outcome \<times> TorNetworkClient \<times> world" where
  "initialize_try E m w =
     (case checkExistingTorConnection E m w of
        (found, w1) \<Rightarrow>
          (if truthy found then connect_and_verify E m w1
           else
             (case startTorDaemon E m w1 of
                (Returns u, m2, w2) \<Rightarrow>
                  (case waitForTorConnection E m2 w2 of
                     (Returns u', w3) \<Rightarrow> connect_and_verify E m2 w3
                   | (Throws cause, w3) \<Rightarrow> (Throws cause, m2, w3)
                   | (Pending, w3) \<Rightarrow> (Pending, m2, w3))
              | (Throws cause, m2, w2) \<Rightarrow> (Throws cause, m2, w2)
              | (Pending, m2, w2) \<Rightarrow> (Pending, m2, w2))))"

definition initialize ::
  "env \<Rightarrow> TorNetworkClient \<Rightarrow> world \<Rightarrow> unit outcome \<times> TorNetworkClient \<times> world" where
  "initialize E m w =
     (if isInitialized m then (Returns (), m, w)
      else (case initialize_try E m w of
              (Throws cause, m1, w1) \<Rightarrow> (Throws (InitializationFailed cause), m1, w1)
            | (r, m1, w1) \<Rightarrow> (r, m1, w1)))"

subsection \<open>Callers\<close>

text \<open>
  A caller drives the manager through its public methods, one call after the other. A call
  that stays pending keeps what it changed; the calls after it are still run, which covers
  a caller that does not await.
\<close>

datatype call =
    Initialize
  | Request string TorRequestOptions
  | GetStatus
  | NewCircuit
  | CheckConnection
  | Cleanup

datatype reply =
    Done "unit outcome"
  | Answered "Response outcome"
  | Snapshot "TorConnectionStatus outcome"
  | Flag "bool outcome"
  | Truth "js_value outcome"

fun perform ::
  "env \<Rightarrow> call \<Rightarrow> TorNetworkClient \<Rightarrow> world \<Rightarrow> reply \<times> TorNetworkClient \<times> world" where
  "perform E Initialize m w = (case initialize E m w of (r, m', w') \<Rightarrow> (Done r, m', w'))"
| "perform E (Request url options) m w =
     (case request E m w url options of (r, m', w') \<Rightarrow> (Answered r, m', w'))"
| "perform E GetStatus m w = (case getStatus E m w of (r, m', w') \<Rightarrow> (Snapshot r, m', w'))"
| "perform E NewCircuit m w = (case newCircuit E m w of (r, m', w') \<Rightarrow> (Flag r, m', w'))"
| "perform E CheckConnection m w =
     (case checkConnection E m w of (r, m', w') \<Rightarrow> (Truth r, m', w'))"
| "perform E Cleanup m w = (case cleanup m w of (r, m', w') \<Rightarrow> (Done r, m', w'))"

fun run ::
  "env \<Rightarrow> call list \<Rightarrow> TorNetworkClient \<Rightarrow> world
     \<Rightarrow> (call \<times> reply) list \<times> TorNetworkClient \<times> world" where
  "run E [] m w = ([], m, w)"
| "run E (c # cs) m w =
     (case perform E c m w of
        (r, m1, w1) \<Rightarrow>
          (case run E cs m1 w1 of (log, m2, w2) \<Rightarrow> ((c, r) # log, m2, w2)))"


subsection \<open>Sample environments and managers\<close>

text \<open>
  An ES-module environment that answers every fetch with \<open>answer\<close> and would play \<open>events\<close>
  on a control connection; the file system accepts every write and the daemon prints
  nothing.
\<close>

definition sample_env :: "fetch_outcome \<Rightarrow> sock_event list \<Rightarrow> env" where
  "sample_env answer events =
     \<lparr> require_defined = False,
       fetch_reply = (\<lambda>tr url init. answer),
       socket_events = (\<lambda>tr port command. events),
       mkdir_reply = (\<lambda>tr dir. None),
       writeFile_reply = (\<lambda>tr file content. None),
       daemon_events = (\<lambda>tr. []),
       clock = (\<lambda>tr. 1700000000000),
       tmpdir = ''/tmp'',
       path_join = (\<lambda>dir name. map_option (\<lambda>d. d @ ''/'' @ name) dir) \<rparr>"

definition tor_answer :: "int \<Rightarrow> bool \<Rightarrow> bool \<Rightarrow> fetch_outcome" where
  "tor_answer code success is_tor =
     FetchResolves
       \<lparr> status = code, ok = success,
         json = Some (JSObject [(''IsTor'', JSBool is_tor), (''IP'', JSString ''185.220.101.4'')]) \<rparr>"

definition signal_accepted :: "sock_event list" where
  "signal_accepted = [SockConnect, SockData (''250 OK'' @ CRLF)]"

text \<open>A host with a daemon running: the probe reports TOR, the control port answers.\<close>

definition tor_env :: env where
  "tor_env = sample_env (tor_answer 200 True True) signal_accepted"

definition initial_world :: world where
  "initial_world = \<lparr> trace = [], dates = [] \<rparr>"

text \<open>\<open>new TorNetworkClient()\<close>.\<close>

definition fresh_client :: TorNetworkClient where
  "fresh_client = constructor tor_env empty_config"

text \<open>The manager and the world after \<open>initialize()\<close> was called on it, on that host.\<close>

definition probed_client :: TorNetworkClient where
  "probed_client = fst (snd (initialize tor_env fresh_client initial_world))"

definition probed_world :: world where
  "probed_world = snd (snd (initialize tor_env fresh_client initial_world))"

subsection \<open>What a caller does with a returned status\<close>



text \<open>The password directive of the template, the same for every manager.\<close>

definition fixed_password_line :: string where
  "fixed_password_line =
     ''HashedControlPassword 16:872860B76453A77D60CA2BB8C1A7042072093276A3D701AD684053EC4C''"

section \<open>Properties\<close>

subsection \<open>Strings and sample values\<close>

lemma str_includes_prefix: "str_includes (needle @ rest) needle"
proof (cases "needle @ rest")
  case Nil
  then show ?thesis by simp
next
  case (Cons c cs)
  have "prefix needle (needle @ rest)"
    by simp
  with Cons show ?thesis
    by simp
qed

lemma str_includes_append: "str_includes (before @ needle @ rest) needle"
  by (induction before) (auto simp: str_includes_prefix)

lemma trim_between:
  assumes "\<forall>c \<in> set pre. whitespace c" and "\<not> whitespace a"
      and "\<not> whitespace z" and "\<forall>c \<in> set post. whitespace c"
  shows "trim (pre @ a # mid @ z # post) = a # mid @ [z]"
proof -
  have "dropWhile whitespace (pre @ a # mid @ z # post)
          = dropWhile whitespace (a # mid @ z # post)"
    by (rule dropWhile_append2) (use assms(1) in auto)
  then have front: "dropWhile whitespace (pre @ a # mid @ z # post) = a # mid @ z # post"
    using assms(2) by simp
  have "dropWhile whitespace (rev post @ z # rev mid @ [a])
          = dropWhile whitespace (z # rev mid @ [a])"
    by (rule dropWhile_append2) (use assms(4) in auto)
  then have rear: "dropWhile whitespace (rev post @ z # rev mid @ [a]) = z # rev mid @ [a]"
    using assms(3) by simp
  show ?thesis
    by (simp add: trim_def front rear)
qed

lemma sample_env_simps [simp]:
  "\<not> require_defined (sample_env answer events)"
  "fetch_reply (sample_env answer events) tr url init = answer"
  "socket_events (sample_env answer events) tr port command = events"
  "clock (sample_env answer events) tr = 1700000000000"
  by (simp_all add: sample_env_def)

subsection \<open>Construction\<close>

text \<open>
  A property absent from the argument takes its default, and a property with a value is
  kept.
\<close>

lemma constructor_defaults:
  "(socksPort cfg = Absent \<longrightarrow> socksPort (config (constructor E cfg)) = Some 9050) \<and>
   (controlPort cfg = Absent \<longrightarrow> controlPort (config (constructor E cfg)) = Some 9051) \<and>
   (\<forall>v. socksPort cfg = Value v \<longrightarrow> socksPort (config (constructor E cfg)) = Some v) \<and>
   (\<forall>v. controlPort cfg = Value v \<longrightarrow> controlPort (config (constructor E cfg)) = Some v) \<and>
   (\<forall>v. torrcPath cfg = Value v \<longrightarrow> torrcPath (config (constructor E cfg)) = Some v) \<and>
   (\<forall>v. dataDirectory cfg = Value v \<longrightarrow> dataDirectory (config (constructor E cfg)) = Some v) \<and>
   (\<forall>v. circuitBuildTimeout cfg = Value v
        \<longrightarrow> circuitBuildTimeout (config (constructor E cfg)) = Some v) \<and>
   (\<forall>v. newCircuitPeriod cfg = Value v
        \<longrightarrow> newCircuitPeriod (config (constructor E cfg)) = Some v)"
  by (simp add: constructor_def)

lemma constructor_other_defaults:
  "(circuitBuildTimeout cfg = Absent
      \<longrightarrow> circuitBuildTimeout (config (constructor E cfg)) = Some 60) \<and>
   (newCircuitPeriod cfg = Absent \<longrightarrow> newCircuitPeriod (config (constructor E cfg)) = Some 30) \<and>
   (torrcPath cfg = Absent \<longrightarrow> torrcPath (config (constructor E cfg)) = None) \<and>
   (dataDirectory cfg = Absent
      \<longrightarrow> dataDirectory (config (constructor E cfg))
            = path_join E (Some (tmpdir E)) ''torollama-tor'')"
  by (simp add: constructor_def)

text \<open>
  A property passed with the value \<open>undefined\<close> is what \<open>??\<close> replaces by the default, and
  what the spread at the end of the literal then copies over that default: every field
  passed so ends \<open>undefined\<close>.
\<close>

lemma constructor_explicit_undefined:
  "(socksPort cfg = Undefined \<longrightarrow> socksPort (config (constructor E cfg)) = None) \<and>
   (controlPort cfg = Undefined \<longrightarrow> controlPort (config (constructor E cfg)) = None) \<and>
   (dataDirectory cfg = Undefined \<longrightarrow> dataDirectory (config (constructor E cfg)) = None) \<and>
   (circuitBuildTimeout cfg = Undefined
      \<longrightarrow> circuitBuildTimeout (config (constructor E cfg)) = None) \<and>
   (newCircuitPeriod cfg = Undefined \<longrightarrow> newCircuitPeriod (config (constructor E cfg)) = None)"
  by (simp add: constructor_def)

text \<open>
  Claim C8. For every partial configuration, a field the caller omits takes its default:
  SOCKS port 9050, control port 9051. The code misses the case of a field passed as
  \<open>undefined\<close>, which \<open>Partial<TorConfig>\<close> allows and \<open>??\<close> treats as missing:
  for \<open>new TorNetworkClient({ socksPort: undefined, controlPort: undefined })\<close> both ports
  end \<open>undefined\<close> and the proxy address is built from \<open>undefined\<close>.
\<close>

theorem constructor_undefined_port_loses_default:
  "nullish (socksPort (empty_config\<lparr>socksPort := Undefined, controlPort := Undefined\<rparr>)) (Some 9050)
     = Some 9050 \<and>
   socksPort (config (constructor tor_env
       (empty_config\<lparr>socksPort := Undefined, controlPort := Undefined\<rparr>))) = None \<and>
   controlPort (config (constructor tor_env
       (empty_config\<lparr>socksPort := Undefined, controlPort := Undefined\<rparr>))) = None \<and>
   proxy_url (config (constructor tor_env
       (empty_config\<lparr>socksPort := Undefined, controlPort := Undefined\<rparr>)))
     = ''socks5h://127.0.0.1:undefined''"
  by (simp add: constructor_def empty_config_def proxy_url_def)



subsection \<open>\<open>request\<close>\<close>

lemma request_client: "fst (snd (request E m w url options)) = m"
  by (simp add: request_def split: prod.splits fetch_outcome.splits)

text \<open>
  Claim C2. For every target and every options value, \<open>request\<close> on a manager whose
  \<open>isInitialized\<close> flag is not set (the flag is set only at the end of a successful
  \<open>initialize()\<close>) fails with the not-initialized error; the manager is unchanged and the
  world's trace did not grow, so no network call was made.
\<close>

theorem request_not_initialized:
  "\<not> isInitialized m \<Longrightarrow> request E m w url options = (Throws NotInitialized, m, w)"
  by (simp add: request_def)

theorem request_not_initialized_witness:
  "\<not> isInitialized fresh_client \<and>
   request tor_env fresh_client initial_world
       ''http://example.onion/'' (no_options\<lparr>method := Some ''POST''\<rparr>)
     = (Throws NotInitialized, fresh_client, initial_world)"
proof -
  have fresh: "\<not> isInitialized fresh_client"
    by (simp add: fresh_client_def constructor_def)
  from request_not_initialized [OF fresh] fresh show ?thesis
    by simp
qed

text \<open>
  Claim C9. \<open>request\<close> does not depend on \<open>maxRedirects\<close>: two options values that differ
  only there give the same \<open>fetch\<close> call and the same result, and the redirect mode handed
  to \<open>fetch\<close> is decided by \<open>followRedirects\<close> alone.
\<close>

theorem request_ignores_maxRedirects:
  "request E m w url (options\<lparr>maxRedirects := limit\<rparr>) = request E m w url options \<and>
   requestOptions m (options\<lparr>maxRedirects := limit\<rparr>) = requestOptions m options \<and>
   redirect (requestOptions m options) =
     Some (if destructure (followRedirects options) True then ''follow'' else ''manual'')"
  by (simp add: request_def requestOptions_def Let_def)

theorem request_ignores_maxRedirects_witness:
  "requestOptions fresh_client (no_options\<lparr>maxRedirects := Some 0\<rparr>)
     = requestOptions fresh_client (no_options\<lparr>maxRedirects := Some 20\<rparr>) \<and>
   request tor_env fresh_client initial_world
       ''http://example.onion/'' (no_options\<lparr>maxRedirects := Some 0\<rparr>)
     = request tor_env fresh_client initial_world
       ''http://example.onion/'' (no_options\<lparr>maxRedirects := Some 20\<rparr>)"
  using request_ignores_maxRedirects
    [where E = tor_env and m = fresh_client
       and w = initial_world and url = "''http://example.onion/''"
       and options = "no_options\<lparr>maxRedirects := Some 0\<rparr>" and limit = "Some 20"]
  by simp

subsection \<open>\<open>checkConnection\<close>\<close>

lemma checkConnection_never_throws: "\<exists>v. fst (checkConnection E m w) = Returns v"
  by (auto simp: checkConnection_def request_def fetch_def
        split: prod.splits fetch_outcome.splits option.splits outcome.splits)

lemma checkConnection_keeps:
  "checkConnection E m w = (r, m', w')
     \<Longrightarrow> isInitialized m' = isInitialized m \<and> agent m' = agent m
         \<and> torProcess m' = torProcess m \<and> config m' = config m
         \<and> lastCircuitTime (connectionStatus m') = lastCircuitTime (connectionStatus m)"
  by (auto simp: checkConnection_def request_def fetch_def set_isConnected_def
        split: prod.splits fetch_outcome.splits option.splits outcome.splits if_splits)

text \<open>
  With the flag unset the request is refused, and the \<open>catch\<close> block answers: \<open>false\<close>, the
  connected flag cleared, nothing sent.
\<close>

lemma checkConnection_uninitialized:
  "\<not> isInitialized m
     \<Longrightarrow> checkConnection E m w = (Returns (JSBool False), set_isConnected (JSBool False) m, w)"
  by (simp add: checkConnection_def request_def)

text \<open>
  The paths behind the guard of \<open>request\<close>, which need the flag set. A rejected fetch, a
  body that \<open>json()\<close> rejects and a body that is \<open>null\<close> end in the \<open>catch\<close> block; a response
  with a non-success status gives \<open>false\<close> and leaves the status object as it was; a body
  without a boolean \<open>IsTor\<close> gives and stores what it holds.
\<close>

lemma checkConnection_request_failed:
  assumes "fst (request E m w check_url (no_options\<lparr>timeout := Some 10000\<rparr>)) = Throws cause"
  shows "fst (checkConnection E m w) = Returns (JSBool False)"
    and "isConnected (connectionStatus (fst (snd (checkConnection E m w)))) = JSBool False"
  using assms
  by (auto simp: checkConnection_def set_isConnected_def split: prod.splits outcome.splits)

lemma checkConnection_malformed_body:
  assumes "fst (request E m w check_url (no_options\<lparr>timeout := Some 10000\<rparr>)) = Returns response"
      and "ok response" and "json response = None \<or> json response = Some JSNull"
  shows "fst (checkConnection E m w) = Returns (JSBool False)"
    and "isConnected (connectionStatus (fst (snd (checkConnection E m w)))) = JSBool False"
  using assms
  by (auto simp: checkConnection_def set_isConnected_def split: prod.splits outcome.splits)

lemma checkConnection_non_success:
  assumes "fst (request E m w check_url (no_options\<lparr>timeout := Some 10000\<rparr>)) = Returns response"
      and "\<not> ok response"
  shows "fst (checkConnection E m w) = Returns (JSBool False)"
    and "connectionStatus (fst (snd (checkConnection E m w))) = connectionStatus m"
  using assms request_client [of E m w check_url "no_options\<lparr>timeout := Some 10000\<rparr>"]
  by (auto simp: checkConnection_def split: prod.splits outcome.splits)

lemma checkConnection_untyped_body:
  assumes "fst (request E m w check_url (no_options\<lparr>timeout := Some 10000\<rparr>)) = Returns response"
      and "ok response" and "json response = Some (JSObject [])"
  shows "fst (checkConnection E m w) = Returns JSUndefined"
    and "isConnected (connectionStatus (fst (snd (checkConnection E m w)))) = JSUndefined"
  using assms
  by (auto simp: checkConnection_def split: prod.splits outcome.splits)

subsection \<open>The control channel and the status refresh\<close>

lemma exchange_settles:
  "SockClose \<notin> set evs \<Longrightarrow> fst (exchange command response evs) \<noteq> Pending"
  by (induction command response evs rule: exchange.induct) (auto split: prod.splits)



lemma updateConnectionStatus_keeps:
  "updateConnectionStatus E m w = (r, m', w')
     \<Longrightarrow> isInitialized m' = isInitialized m \<and> agent m' = agent m
         \<and> torProcess m' = torProcess m \<and> config m' = config m
         \<and> lastCircuitTime (connectionStatus m') = lastCircuitTime (connectionStatus m)"
  by (auto simp: updateConnectionStatus_def Let_def
        split: prod.splits outcome.splits if_splits dest!: checkConnection_keeps)

text \<open>Inside \<open>initialize\<close> the flag is still unset when the connection is verified.\<close>

lemma updateConnectionStatus_uninitialized:
  "\<not> isInitialized m
     \<Longrightarrow> updateConnectionStatus E m w =
           (Returns (),
            m\<lparr>connectionStatus :=
                 (connectionStatus m)\<lparr>isConnected := JSBool False,
                                        circuitEstablished := JSBool False\<rparr>\<rparr>,
            w)"
  by (simp add: updateConnectionStatus_def checkConnection_uninitialized set_isConnected_def
        Let_def)

subsection \<open>\<open>newCircuit\<close>\<close>

lemma newCircuit_keeps:
  "newCircuit E m w = (r, m', w')
     \<Longrightarrow> isInitialized m' = isInitialized m \<and> agent m' = agent m
         \<and> torProcess m' = torProcess m \<and> config m' = config m"
  by (auto simp: newCircuit_def split: prod.splits outcome.splits
        dest!: updateConnectionStatus_keeps)



subsection \<open>\<open>getStatus\<close>\<close>

lemma getStatus_keeps:
  "getStatus E m w = (r, m', w')
     \<Longrightarrow> isInitialized m' = isInitialized m \<and> agent m' = agent m
         \<and> torProcess m' = torProcess m \<and> config m' = config m"
  by (auto simp: getStatus_def split: prod.splits outcome.splits
        dest!: updateConnectionStatus_keeps)

text \<open>The object handed out has the property values of the manager's own status.\<close>

lemma getStatus_copy:
  "getStatus E m w = (Returns copy, m', w') \<Longrightarrow> copy = connectionStatus m'"
  by (auto simp: getStatus_def split: prod.splits outcome.splits)

subsection \<open>\<open>startTorDaemon\<close>\<close>

lemma trim_torrcContent:
  "trim (torrcContent c) =
     ''SocksPort '' @ template show_number (socksPort c) @
     LF @ ''ControlPort '' @ template show_number (controlPort c) @
     LF @ ''DataDirectory '' @ template id (dataDirectory c) @
     LF @ ''CircuitBuildTimeout '' @ template show_number (circuitBuildTimeout c) @
     LF @ ''NewCircuitPeriod '' @ template show_number (newCircuitPeriod c) @
     LF @ ''ExitNodes {us},{ca},{gb},{de},{fr},{nl},{se},{no},{dk}'' @
     LF @ ''StrictNodes 0'' @
     LF @ ''# Enable control port authentication'' @
     LF @ fixed_password_line @
     LF @ ''CookieAuthentication 1''"
proof -
  let ?mid = "''ocksPort '' @ template show_number (socksPort c) @
     LF @ ''ControlPort '' @ template show_number (controlPort c) @
     LF @ ''DataDirectory '' @ template id (dataDirectory c) @
     LF @ ''CircuitBuildTimeout '' @ template show_number (circuitBuildTimeout c) @
     LF @ ''NewCircuitPeriod '' @ template show_number (newCircuitPeriod c) @
     LF @ ''ExitNodes {us},{ca},{gb},{de},{fr},{nl},{se},{no},{dk}'' @
     LF @ ''StrictNodes 0'' @
     LF @ ''# Enable control port authentication'' @
     LF @ fixed_password_line @
     LF @ ''CookieAuthentication ''"
  have shape: "torrcContent c = LF @ CHR ''S'' # ?mid @ CHR ''1'' # (LF @ ''    '')"
    by (simp add: torrcContent_def fixed_password_line_def)
  have "trim (LF @ CHR ''S'' # ?mid @ CHR ''1'' # (LF @ ''    '')) = CHR ''S'' # ?mid @ [CHR ''1'']"
    by (rule trim_between) (simp_all add: whitespace_def LF_def)
  then show ?thesis
    by (simp add: shape)
qed

text \<open>Whenever the directory can be made, the trimmed template is what is written.\<close>

lemma startTorDaemon_writes_torrc:
  assumes "mkdir_reply E (trace w) (dataDirectory (config m)) = None"
      and "path_join E (dataDirectory (config m)) ''torrc'' = Some file"
  shows "WriteFile file (trim (torrcContent (config m)))
           \<in> set (trace (snd (snd (startTorDaemon E m w))))"
  using assms
  by (simp add: startTorDaemon_def Let_def emit_def split: option.splits)

lemma startTorDaemon_keeps:
  "startTorDaemon E m w = (r, m', w')
     \<Longrightarrow> isInitialized m' = isInitialized m \<and> agent m' = agent m \<and> config m' = config m
         \<and> connectionStatus m' = connectionStatus m"
  by (auto simp: startTorDaemon_def Let_def split: option.splits)

lemma await_ready_settles: "await_ready torOutput evs \<noteq> Pending"
  by (induction torOutput evs rule: await_ready.induct) auto

lemma startTorDaemon_settles: "fst (startTorDaemon E m w) \<noteq> Pending"
  by (auto simp: startTorDaemon_def Let_def await_ready_settles split: option.splits)

text \<open>
  Claim C3. The configuration file the manager writes for its own daemon embeds no fixed
  control-port password. The code does the opposite: for every configuration the file
  contains the same \<open>HashedControlPassword\<close> directive, next to \<open>CookieAuthentication 1\<close>.
\<close>

theorem torrc_embeds_fixed_password:
  "str_includes (trim (torrcContent c)) fixed_password_line"
proof -
  have "trim (torrcContent c) =
     (''SocksPort '' @ template show_number (socksPort c) @
      LF @ ''ControlPort '' @ template show_number (controlPort c) @
      LF @ ''DataDirectory '' @ template id (dataDirectory c) @
      LF @ ''CircuitBuildTimeout '' @ template show_number (circuitBuildTimeout c) @
      LF @ ''NewCircuitPeriod '' @ template show_number (newCircuitPeriod c) @
      LF @ ''ExitNodes {us},{ca},{gb},{de},{fr},{nl},{se},{no},{dk}'' @
      LF @ ''StrictNodes 0'' @
      LF @ ''# Enable control port authentication'' @ LF)
     @ fixed_password_line @ (LF @ ''CookieAuthentication 1'')"
    by (simp add: trim_torrcContent)
  then show ?thesis
    by (simp only: str_includes_append)
qed

subsection \<open>\<open>initialize\<close>\<close>

text \<open>The guard at the top: with the flag set, nothing is done.\<close>

lemma initialize_guard:
  "isInitialized m \<Longrightarrow> initialize E m w = (Returns (), m, w)"
  by (simp add: initialize_def)

lemma connect_and_verify_uninitialized:
  assumes "\<not> isInitialized m"
  shows "connect_and_verify E m w =
           (Throws NotConnected,
            m\<lparr>agent := Some (SocksProxyAgent (proxy_url (config m))),
               connectionStatus :=
                 (connectionStatus m)\<lparr>isConnected := JSBool False,
                                        circuitEstablished := JSBool False\<rparr>\<rparr>,
            w)"
proof -
  let ?m1 = "m\<lparr>agent := Some (SocksProxyAgent (proxy_url (config m)))\<rparr>"
  have unset: "\<not> isInitialized ?m1"
    using assms by simp
  show ?thesis
    by (simp add: connect_and_verify_def Let_def updateConnectionStatus_uninitialized [OF unset])
qed

lemma waitForTorConnection_loop_settles:
  "fst (waitForTorConnection_loop E m attempts w) \<noteq> Pending"
proof (induction E m attempts w rule: waitForTorConnection_loop.induct)
  case (1 E m attempts w)
  show ?case
  proof (cases "attempts < 30")
    case True
    obtain found w1 where c: "checkExistingTorConnection E m w = (found, w1)"
      by (cases "checkExistingTorConnection E m w")
    show ?thesis
    proof (cases "truthy found")
      case True
      with \<open>attempts < 30\<close> c show ?thesis
        by (simp add: waitForTorConnection_loop.simps [of E m attempts w])
    next
      case False
      with "1.IH" [OF \<open>attempts < 30\<close> c [symmetric] False] \<open>attempts < 30\<close> c show ?thesis
        by (simp add: waitForTorConnection_loop.simps [of E m attempts w])
    qed
  next
    case False
    then show ?thesis
      by (simp add: waitForTorConnection_loop.simps [of E m attempts w])
  qed
qed

lemma initialize_try_uninitialized:
  assumes "\<not> isInitialized m" and "initialize_try E m w = (r, m', w')"
  shows "(\<exists>cause. r = Throws cause) \<and> \<not> isInitialized m'
           \<and> connectionStatus m' = connectionStatus m
              \<or> (\<exists>cause. r = Throws cause) \<and> \<not> isInitialized m'
                 \<and> connectionStatus m' =
                     (connectionStatus m)\<lparr>isConnected := JSBool False,
                                            circuitEstablished := JSBool False\<rparr>"
proof -
  obtain found w1 where c: "checkExistingTorConnection E m w = (found, w1)"
    by (cases "checkExistingTorConnection E m w")
  show ?thesis
  proof (cases "truthy found")
    case True
    with assms c show ?thesis
      by (auto simp: initialize_try_def connect_and_verify_uninitialized)
  next
    case False
    obtain r2 m2 w2 where s: "startTorDaemon E m w1 = (r2, m2, w2)"
      by (cases "startTorDaemon E m w1")
    have m2: "\<not> isInitialized m2" and st2: "connectionStatus m2 = connectionStatus m"
      using startTorDaemon_keeps [OF s] assms(1) by simp_all
    have r2: "r2 \<noteq> Pending"
      using startTorDaemon_settles [of E m w1] s by simp
    obtain r3 w3 where t: "waitForTorConnection E m2 w2 = (r3, w3)"
      by (cases "waitForTorConnection E m2 w2")
    have r3: "r3 \<noteq> Pending"
      using waitForTorConnection_loop_settles [of E m2 0 w2] t
      by (simp add: waitForTorConnection_def)
    show ?thesis
    proof (cases r2)
      case (Returns u)
      show ?thesis
      proof (cases r3)
        case (Returns u')
        with assms(2) c False s \<open>r2 = Returns u\<close> t m2 st2 show ?thesis
          by (auto simp: initialize_try_def connect_and_verify_uninitialized)
      next
        case (Throws cause)
        with assms(2) c False s \<open>r2 = Returns u\<close> t m2 st2 show ?thesis
          by (auto simp: initialize_try_def)
      next
        case Pending
        with r3 show ?thesis by simp
      qed
    next
      case (Throws cause)
      with assms(2) c False s m2 st2 show ?thesis
        by (auto simp: initialize_try_def)
    next
      case Pending
      with r2 show ?thesis by simp
    qed
  qed
qed

text \<open>
  From a manager whose flag is unset, \<open>initialize()\<close> always rejects and leaves the flag
  unset: whatever the environment answers, the verification step goes through \<open>request\<close>,
  which refuses because the flag is set only after the verification.
\<close>

lemma initialize_uninitialized:
  assumes "\<not> isInitialized m" and "initialize E m w = (r, m', w')"
  shows "(\<exists>cause. r = Throws (InitializationFailed cause)) \<and> \<not> isInitialized m'"
proof -
  obtain r1 m1 w1 where t: "initialize_try E m w = (r1, m1, w1)"
    by (cases "initialize_try E m w")
  from initialize_try_uninitialized [OF assms(1) t] assms t show ?thesis
    by (auto simp: initialize_def)
qed


lemma initialize_success_sets_flag:
  assumes "initialize E m w = (Returns (), m', w')"
  shows "isInitialized m'"
proof (cases "isInitialized m")
  case True
  with assms show ?thesis by (simp add: initialize_def)
next
  case False
  from initialize_uninitialized [OF False assms] show ?thesis by simp
qed

text \<open>
  Two calls in a row on a new manager, on a host where the daemon runs and the probe
  reports TOR: both reject, and each sends its probe.
\<close>

lemma initialize_twice:
  "fst (run tor_env [Initialize, Initialize] fresh_client initial_world)
     = [(Initialize, Done (Throws (InitializationFailed NotConnected))),
        (Initialize, Done (Throws (InitializationFailed NotConnected)))] \<and>
   length (trace (snd (snd (run tor_env [Initialize, Initialize] fresh_client initial_world)))) = 2"
  by (simp add: initialize_def initialize_try_def checkExistingTorConnection_def fetch_def
        connect_and_verify_uninitialized fresh_client_def constructor_def tor_env_def
        tor_answer_def emit_def initial_world_def)

subsection \<open>\<open>cleanup\<close> and sequences of calls\<close>

lemma cleanup_resets:
  "cleanup m w = (r, m', w')
     \<Longrightarrow> r = Returns () \<and> \<not> isInitialized m' \<and> agent m' = None \<and> torProcess m' = None
         \<and> connectionStatus m' = connectionStatus m"
  by (auto simp: cleanup_def split: option.splits)

lemma perform_uninitialized:
  assumes "\<not> isInitialized m" and "perform E c m w = (r, m', w')"
  shows "\<not> isInitialized m' \<and> (c, r) \<noteq> (Initialize, Done (Returns ()))"
proof (cases c)
  case Initialize
  obtain r0 where "initialize E m w = (r0, m', w')" and "r = Done r0"
    using assms(2) Initialize by (auto split: prod.splits)
  with initialize_uninitialized [OF assms(1), of E w r0 m' w'] show ?thesis
    by auto
next
  case (Request url options)
  with assms request_client [of E m w url options] show ?thesis
    by (auto split: prod.splits)
next
  case GetStatus
  with assms show ?thesis
    by (auto split: prod.splits dest!: getStatus_keeps)
next
  case NewCircuit
  with assms show ?thesis
    by (auto split: prod.splits dest!: newCircuit_keeps)
next
  case CheckConnection
  with assms show ?thesis
    by (auto split: prod.splits dest!: checkConnection_keeps)
next
  case Cleanup
  with assms show ?thesis
    by (auto split: prod.splits dest!: cleanup_resets)
qed

lemma run_uninitialized:
  "\<not> isInitialized m \<Longrightarrow> run E calls m w = (log, m', w')
     \<Longrightarrow> \<not> isInitialized m' \<and> (Initialize, Done (Returns ())) \<notin> set log"
proof (induction calls arbitrary: m w log)
  case Nil
  then show ?case by simp
next
  case (Cons c cs)
  obtain r m1 w1 where p: "perform E c m w = (r, m1, w1)"
    by (cases "perform E c m w")
  obtain log1 where rest: "run E cs m1 w1 = (log1, m', w')" and log: "log = (c, r) # log1"
    using Cons.prems(2) p by (auto split: prod.splits)
  from perform_uninitialized [OF Cons.prems(1) p] Cons.IH [OF _ rest] log show ?case
    by auto
qed


text \<open>
  Claim C10. \<open>cleanup()\<close> resets the flag and releases the proxy handle, and after it every
  \<open>request\<close>, for every target and options, fails with the not-initialized error and makes
  no network call, whatever calls were made in between, as long as none of them was an
  \<open>initialize()\<close> that completed.
\<close>

theorem request_after_cleanup:
  assumes "cleanup m w = (r, m1, w1)"
      and "run E calls m1 w1 = (log, m2, w2)"
      and "(Initialize, Done (Returns ())) \<notin> set log"
  shows "\<not> isInitialized m1 \<and> agent m1 = None \<and>
         request E m2 w2 url options = (Throws NotInitialized, m2, w2)"
proof -
  have reset: "\<not> isInitialized m1 \<and> agent m1 = None"
    using cleanup_resets [OF assms(1)] by simp
  then have "\<not> isInitialized m2"
    using run_uninitialized [OF _ assms(2)] by simp
  with reset show ?thesis
    by (simp add: request_def)
qed

lemma probed:
  "initialize tor_env fresh_client initial_world
     = (Throws (InitializationFailed NotConnected), probed_client, probed_world)"
  "agent probed_client = Some (SocksProxyAgent (proxy_url (config fresh_client)))"
  "\<not> isInitialized probed_client"
  by (simp_all add: probed_client_def probed_world_def initialize_def initialize_try_def
        checkExistingTorConnection_def fetch_def connect_and_verify_uninitialized
        fresh_client_def constructor_def tor_env_def tor_answer_def)

lemma cleanup_probed:
  "cleanup probed_client probed_world
     = (Returns (), probed_client\<lparr>agent := None, isInitialized := False\<rparr>, probed_world)"
  by (simp add: cleanup_def probed_client_def initialize_def initialize_try_def
        checkExistingTorConnection_def fetch_def connect_and_verify_uninitialized
        fresh_client_def constructor_def tor_env_def tor_answer_def)

lemma run_after_cleanup:
  "fst (run tor_env [CheckConnection, Initialize]
          (probed_client\<lparr>agent := None, isInitialized := False\<rparr>) probed_world)
     = [(CheckConnection, Truth (Returns (JSBool False))),
        (Initialize, Done (Throws (InitializationFailed NotConnected)))]"
  by (simp add: checkConnection_uninitialized initialize_def initialize_try_def
        checkExistingTorConnection_def fetch_def connect_and_verify_uninitialized
        set_isConnected_def tor_env_def tor_answer_def)

theorem request_after_cleanup_witness:
  "agent probed_client \<noteq> None \<and>
   fst (request tor_env
          (fst (snd (run tor_env [CheckConnection, Initialize]
             (probed_client\<lparr>agent := None, isInitialized := False\<rparr>) probed_world)))
          (snd (snd (run tor_env [CheckConnection, Initialize]
             (probed_client\<lparr>agent := None, isInitialized := False\<rparr>) probed_world)))
          ''http://example.onion/'' no_options)
     = Throws NotInitialized"
proof -
  let ?R = "run tor_env [CheckConnection, Initialize]
              (probed_client\<lparr>agent := None, isInitialized := False\<rparr>) probed_world"
  have r: "?R = (fst ?R, fst (snd ?R), snd (snd ?R))"
    by simp
  have quiet: "(Initialize, Done (Returns ())) \<notin> set (fst ?R)"
    unfolding run_after_cleanup by simp
  from request_after_cleanup [OF cleanup_probed r quiet, of "''http://example.onion/''" no_options]
  show ?thesis
    by (simp add: probed(2))
qed

subsection \<open>Every manager the code can have\<close>







end
